theory Spec2Isabelle
  imports Main "HOL-Library.Word" "HOL-Library.Sublist"
begin

section \<open>RealReview backend: image upload and metadata service\<close>

text \<open>
  A shallow embedding of \<^verbatim>\<open>backend/crud.py\<close>, \<^verbatim>\<open>backend/main.py\<close>,
  \<^verbatim>\<open>backend/models.py\<close>, \<^verbatim>\<open>backend/schemas.py\<close> and \<^verbatim>\<open>backend/database.py\<close>.
  The file system, the relational table and the set of open database sessions are explicit
  state. What the environment decides (the identifier drawn by \<^verbatim>\<open>uuid.uuid4()\<close>, whether
  the disk write completes, the database clock) is an explicit argument.
  Paths follow \<^verbatim>\<open>posixpath\<close>: the separator is \<^verbatim>\<open>/\<close>, there is no alternative separator.
  The database is PostgreSQL behind the psycopg2 driver, as the source's comments say, and the
  server is taken to be reachable: a statement fails only on a constraint of the table or on
  an argument that the driver or the server rejects.
\<close>

subsection \<open>Strings and paths (\<^verbatim>\<open>os.path\<close>)\<close>

type_synonym bytes = "8 word list"

text \<open>\<^verbatim>\<open>str.rfind(c)\<close> for a single character: the highest index of \<open>c\<close>, or \<open>-1\<close>.\<close>

fun rfind :: "string \<Rightarrow> char \<Rightarrow> int" where
  "rfind [] c = - 1"
| "rfind (x # xs) c =
     (let r = rfind xs c in if 0 \<le> r then r + 1 else if x = c then 0 else - 1)"

text \<open>
  The loop of \<^verbatim>\<open>genericpath._splitext\<close> that skips the leading dots of the last path
  component:
  \<^verbatim>\<open>
    while filenameIndex < dotIndex:
        if p[filenameIndex:filenameIndex+1] != extsep:
            return p[:dotIndex], p[dotIndex:]
        filenameIndex += 1
    return p, p[:0]
  \<close>
\<close>

function splitext_loop :: "string \<Rightarrow> nat \<Rightarrow> nat \<Rightarrow> string \<times> string" where
  "splitext_loop p filenameIndex dotIndex =
     (if filenameIndex < dotIndex then
        (if take 1 (drop filenameIndex p) \<noteq> ''.'' then (take dotIndex p, drop dotIndex p)
         else splitext_loop p (Suc filenameIndex) dotIndex)
      else (p, []))"
  by pat_completeness auto
termination
  by (relation "measure (\<lambda>(p, filenameIndex, dotIndex). dotIndex - filenameIndex)") auto

text \<open>
  \<^verbatim>\<open>os.path.splitext(p)\<close>:
  \<^verbatim>\<open>
    sepIndex = p.rfind(sep)
    dotIndex = p.rfind(extsep)
    if dotIndex > sepIndex:
        filenameIndex = sepIndex + 1
        <the loop above>
    return p, p[:0]
  \<close>
\<close>

definition splitext :: "string \<Rightarrow> string \<times> string" where
  "splitext p =
     (let sepIndex = rfind p CHR ''/'';
          dotIndex = rfind p CHR ''.''
      in if dotIndex > sepIndex
         then splitext_loop p (nat (sepIndex + 1)) (nat dotIndex)
         else (p, []))"

text \<open>
  \<^verbatim>\<open>os.path.join(a, b)\<close> for two components: an absolute \<open>b\<close> replaces \<open>a\<close>; otherwise
  a separator is inserted unless \<open>a\<close> is empty or already ends with one.
\<close>

definition path_join :: "string \<Rightarrow> string \<Rightarrow> string" where
  "path_join a b =
     (if take 1 b = ''/'' then b
      else if a = [] \<or> last a = CHR ''/'' then a @ b
      else a @ ''/'' @ b)"

text \<open>\<^verbatim>\<open>UPLOAD_DIR = os.getenv("UPLOAD_DIR", "./uploads")\<close>\<close>

definition UPLOAD_DIR :: "(string \<rightharpoonup> string) \<Rightarrow> string" where
  "UPLOAD_DIR environ = (case environ ''UPLOAD_DIR'' of None \<Rightarrow> ''./uploads'' | Some d \<Rightarrow> d)"

subsection \<open>Identifiers drawn by \<^verbatim>\<open>uuid.uuid4()\<close>\<close>

text \<open>
  \<^verbatim>\<open>f"{uuid.uuid4()}"\<close> is 36 characters: lower-case hexadecimal digits in groups of
  8-4-4-4-12 separated by hyphens, with version digit \<^verbatim>\<open>4\<close> and a variant digit
  among \<^verbatim>\<open>8 9 a b\<close>. The draw itself is an argument of the model.
\<close>

definition hexdigit :: "char \<Rightarrow> bool" where
  "hexdigit c = (c \<in> set ''0123456789abcdef'')"

definition is_uuid4_str :: "string \<Rightarrow> bool" where
  "is_uuid4_str s =
     (length s = 36 \<and>
      list_all (\<lambda>(i, c). if i \<in> {8, 13, 18, 23} then c = CHR ''-'' else hexdigit c)
        (zip [0..<36] s) \<and>
      take 1 (drop 14 s) = ''4'' \<and>
      list_all (\<lambda>c. c \<in> set ''89ab'') (take 1 (drop 19 s)))"

subsection \<open>The uploaded file and the file system\<close>

text \<open>
  \<^verbatim>\<open>fastapi.UploadFile\<close>: the client's file name (taken to be present), and the spooled
  stream with its read position.
\<close>

record UploadFile =
  uf_filename :: string
  uf_file :: bytes
  uf_pos :: nat

definition seek :: "UploadFile \<Rightarrow> nat \<Rightarrow> UploadFile" where
  "seek upload_file offset = upload_file\<lparr>uf_pos := offset\<rparr>"

text \<open>\<^verbatim>\<open>shutil.copyfileobj(src, dst)\<close> copies from the read position of \<open>src\<close> to its end.\<close>

definition copyfileobj :: "UploadFile \<Rightarrow> bytes" where
  "copyfileobj upload_file = drop (uf_pos upload_file) (uf_file upload_file)"

type_synonym filesystem = "string \<rightharpoonup> bytes"

datatype error = OSError | ValueError | IntegrityError | DataError

text \<open>
  What the system does with \<^verbatim>\<open>open(file_path, "wb")\<close> followed by the copy: the open
  fails and nothing changes (a missing or read-only directory, a path that the system
  refuses, such as one that holds a NUL character); the open creates or truncates the file
  and the copy fails after some bytes (a full disk); or both complete. An existing file of
  that path is truncated and rewritten.
\<close>

datatype io_outcome = OpenFails | CopyFails nat | WriteOk

text \<open>
  \<^verbatim>\<open>
  async def save_image_file(upload_file):
      file_extension = os.path.splitext(upload_file.filename)[1]
      unique_filename = f"{uuid.uuid4()}{file_extension}"
      file_path = os.path.join(UPLOAD_DIR, unique_filename)
      try:
          with open(file_path, "wb") as buffer:
              await upload_file.seek(0)
              shutil.copyfileobj(upload_file.file, buffer)
      except Exception as e:
          raise
      return unique_filename
  \<close>
  The argument \<open>upload_dir\<close> is the module constant \<^verbatim>\<open>UPLOAD_DIR\<close>, \<open>uuid4\<close> is the string
  of the identifier drawn, \<open>io\<close> is what the disk does. The exception handler only logs and
  re-raises.
\<close>

definition save_image_file ::
  "string \<Rightarrow> string \<Rightarrow> io_outcome \<Rightarrow> UploadFile \<Rightarrow> filesystem \<Rightarrow> (error + string) \<times> filesystem" where
  "save_image_file upload_dir uuid4 io upload_file fs =
     (let file_extension = snd (splitext (uf_filename upload_file));
          unique_filename = uuid4 @ file_extension;
          file_path = path_join upload_dir unique_filename
      in case io of
           OpenFails \<Rightarrow> (Inl OSError, fs)
         | CopyFails n \<Rightarrow>
             (Inl OSError, fs(file_path \<mapsto> take n (copyfileobj (seek upload_file 0))))
         | WriteOk \<Rightarrow>
             (Inr unique_filename, fs(file_path \<mapsto> copyfileobj (seek upload_file 0))))"

subsection \<open>The table \<^verbatim>\<open>image_metadata\<close> (\<^verbatim>\<open>models.py\<close>) and the schemas (\<^verbatim>\<open>schemas.py\<close>)\<close>

type_synonym datetime = int

text \<open>
  \<^verbatim>\<open>models.ImageMetadata\<close>: one row of the table. The fields are the columns \<^verbatim>\<open>id\<close>,
  \<^verbatim>\<open>filename\<close>, \<^verbatim>\<open>original_filename\<close>, \<^verbatim>\<open>uploader_name\<close>, \<^verbatim>\<open>upload_timestamp\<close> and
  \<^verbatim>\<open>location\<close>; the two nullable columns are options.
\<close>

record ImageMetadata =
  im_id :: int
  im_filename :: string
  im_original_filename :: string
  im_uploader_name :: "string option"
  im_upload_timestamp :: datetime
  im_location :: "string option"

text \<open>\<^verbatim>\<open>schemas.ImageMetadataCreate\<close>: both fields default to \<^verbatim>\<open>None\<close>.\<close>

record ImageMetadataCreate =
  mc_uploader_name :: "string option"
  mc_location :: "string option"

text \<open>\<^verbatim>\<open>schemas.ImageMetadataDisplay\<close>, the response shape.\<close>

record ImageMetadataDisplay =
  d_id :: int
  d_filename :: string
  d_original_filename :: string
  d_uploader_name :: "string option"
  d_upload_timestamp :: datetime
  d_location :: "string option"

text \<open>
  \<^verbatim>\<open>Config.from_attributes = True\<close>: the display shape is read attribute by attribute from
  the row object.
\<close>

definition from_attributes :: "ImageMetadata \<Rightarrow> ImageMetadataDisplay" where
  "from_attributes r =
     \<lparr>d_id = im_id r, d_filename = im_filename r,
      d_original_filename = im_original_filename r, d_uploader_name = im_uploader_name r,
      d_upload_timestamp = im_upload_timestamp r, d_location = im_location r\<rparr>"

text \<open>
  The database: the rows of \<^verbatim>\<open>image_metadata\<close> in the order the queries return them
  (insertion order), and the last value handed out for the auto-incrementing primary key.
\<close>

record database =
  image_metadata :: "ImageMetadata list"
  id_seq :: int

definition empty_database :: database where
  "empty_database = \<lparr>image_metadata = [], id_seq = 0\<rparr>"

text \<open>
  What the column declarations enforce: \<^verbatim>\<open>id\<close> is a primary key handed out by the
  sequence, \<^verbatim>\<open>filename\<close> is \<^verbatim>\<open>unique=True\<close>.
\<close>

definition db_wf :: "database \<Rightarrow> bool" where
  "db_wf db =
     (distinct (map im_id (image_metadata db)) \<and>
      list_all (\<lambda>r. im_id r \<le> id_seq db) (image_metadata db) \<and>
      distinct (map im_filename (image_metadata db)))"

subsection \<open>\<^verbatim>\<open>crud.py\<close>: the metadata store\<close>

text \<open>
  \<^verbatim>\<open>
  def create_image_metadata(db, filename, original_filename, metadata):
      db_metadata = models.ImageMetadata(filename=filename,
          original_filename=original_filename,
          uploader_name=metadata.uploader_name, location=metadata.location)
      db.add(db_metadata)
      db.commit()
      db.refresh(db_metadata)
      return db_metadata
  \<close>
  The commit sends the \<^verbatim>\<open>INSERT\<close>. The driver refuses a string parameter that holds a
  NUL character with \<^verbatim>\<open>ValueError\<close> before anything reaches the server. The server
  rejects the insert when a row with this \<^verbatim>\<open>filename\<close> exists (\<^verbatim>\<open>unique=True\<close>):
  \<^verbatim>\<open>IntegrityError\<close> is raised and no row is stored, but the value drawn from the
  sequence of \<^verbatim>\<open>id\<close> is used up. Nothing catches either exception here. Otherwise the row
  gets the next \<^verbatim>\<open>id\<close> and the database time (\<^verbatim>\<open>server_default=func.now()\<close>), which the
  refresh loads into the returned object.
\<close>

definition has_nul :: "string \<Rightarrow> bool" where
  "has_nul s = (CHR 0x00 \<in> set s)"

text \<open>The string parameters that the \<^verbatim>\<open>INSERT\<close> binds; a \<^verbatim>\<open>None\<close> binds \<^verbatim>\<open>NULL\<close>.\<close>

definition insert_strings :: "string \<Rightarrow> string \<Rightarrow> ImageMetadataCreate \<Rightarrow> string list" where
  "insert_strings filename original_filename metadata =
     [filename, original_filename] @
     (case mc_uploader_name metadata of None \<Rightarrow> [] | Some s \<Rightarrow> [s]) @
     (case mc_location metadata of None \<Rightarrow> [] | Some s \<Rightarrow> [s])"

definition create_image_metadata ::
  "database \<Rightarrow> datetime \<Rightarrow> string \<Rightarrow> string \<Rightarrow> ImageMetadataCreate
     \<Rightarrow> (error + ImageMetadata) \<times> database" where
  "create_image_metadata db now filename original_filename metadata =
     (if list_ex has_nul (insert_strings filename original_filename metadata)
      then (Inl ValueError, db)
      else if list_ex (\<lambda>r. im_filename r = filename) (image_metadata db)
      then (Inl IntegrityError, db\<lparr>id_seq := id_seq db + 1\<rparr>)
      else
        (let db_metadata =
               \<lparr>im_id = id_seq db + 1, im_filename = filename,
                im_original_filename = original_filename,
                im_uploader_name = mc_uploader_name metadata,
                im_upload_timestamp = now,
                im_location = mc_location metadata\<rparr>
         in (Inr db_metadata,
             db\<lparr>image_metadata := image_metadata db @ [db_metadata],
                id_seq := id_seq db + 1\<rparr>)))"

text \<open>
  \<^verbatim>\<open>
  def get_images_metadata(db, skip=0, limit=100):
      return db.query(models.ImageMetadata).offset(skip).limit(limit).all()
  \<close>
  Both arguments are Python integers. PostgreSQL rejects a negative \<^verbatim>\<open>OFFSET\<close> or
  \<^verbatim>\<open>LIMIT\<close>, and one that does not fit its 64-bit \<^verbatim>\<open>bigint\<close>; the \<^verbatim>\<open>DataError\<close> is
  not caught.
\<close>

definition get_images_metadata :: "database \<Rightarrow> int \<Rightarrow> int \<Rightarrow> error + ImageMetadata list" where
  "get_images_metadata db skip limit =
     (if skip < 0 \<or> limit < 0 \<or> 2 ^ 63 \<le> skip \<or> 2 ^ 63 \<le> limit then Inl DataError
      else Inr (take (nat limit) (drop (nat skip) (image_metadata db))))"

text \<open>
  \<^verbatim>\<open>
  def get_image_metadata(db, image_id):
      return db.query(models.ImageMetadata).filter(models.ImageMetadata.id == image_id).first()
  \<close>
  \<^verbatim>\<open>first()\<close> is the first matching row, or \<^verbatim>\<open>None\<close>.
\<close>

definition get_image_metadata :: "database \<Rightarrow> int \<Rightarrow> ImageMetadata option" where
  "get_image_metadata db image_id = find (\<lambda>r. im_id r = image_id) (image_metadata db)"

subsection \<open>\<^verbatim>\<open>database.py\<close>: one session per request\<close>

text \<open>
  The application state: the upload directory's files, the database, the sessions that are
  open, and the counter that names the next session object.
\<close>

record app_state =
  files :: filesystem
  db :: database
  open_sessions :: "nat list"
  next_session :: nat

definition SessionLocal :: "app_state \<Rightarrow> nat \<times> app_state" where
  "SessionLocal st =
     (next_session st,
      st\<lparr>open_sessions := next_session st # open_sessions st,
         next_session := Suc (next_session st)\<rparr>)"

definition close :: "nat \<Rightarrow> app_state \<Rightarrow> app_state" where
  "close session st = st\<lparr>open_sessions := removeAll session (open_sessions st)\<rparr>"

text \<open>
  \<^verbatim>\<open>
  def get_db():
      db = SessionLocal()
      try:
          yield db
      finally:
          db.close()
  \<close>
  The endpoint runs at the \<^verbatim>\<open>yield\<close>; whatever it produces, a value or an exception, the
  \<^verbatim>\<open>finally\<close> block runs afterwards.
\<close>

definition get_db :: "(nat \<Rightarrow> app_state \<Rightarrow> 'a \<times> app_state) \<Rightarrow> app_state \<Rightarrow> 'a \<times> app_state" where
  "get_db endpoint st =
     (case SessionLocal st of
        (session, st1) \<Rightarrow>
          (case endpoint session st1 of
             (outcome, st2) \<Rightarrow> (outcome, close session st2)))"

definition sessions_wf :: "app_state \<Rightarrow> bool" where
  "sessions_wf st = list_all (\<lambda>s. s < next_session st) (open_sessions st)"

subsection \<open>\<^verbatim>\<open>main.py\<close>: the endpoints\<close>

datatype detail =
    Failed_to_save_image_file error
  | Failed_to_create_image_metadata error
  | Image_not_found

text \<open>
  What an endpoint raises: an \<^verbatim>\<open>HTTPException(status_code, detail)\<close> of its own, or an
  exception of a callee that it does not catch.
\<close>

datatype exn = HTTPException nat detail | Uncaught error

text \<open>What the environment decides during one request.\<close>

record environment =
  env_uuid4 :: string
  env_io :: io_outcome
  env_now :: datetime

text \<open>
  \<^verbatim>\<open>
  async def upload_image_and_metadata(upload_file, uploader_name, location, db):
      try:
          unique_filename = await crud.save_image_file(upload_file)
      except Exception as e:
          raise HTTPException(status_code=500, detail=f"Failed to save image file: {e}")
      try:
          metadata_create = schemas.ImageMetadataCreate(
              uploader_name=uploader_name, location=location)
          db_metadata = crud.create_image_metadata(db=db, filename=unique_filename,
              original_filename=upload_file.filename, metadata=metadata_create)
      except Exception as e:
          # TODO: Consider cleaning up the saved file if metadata creation fails
          raise HTTPException(status_code=500, detail=f"Failed to create image metadata: {e}")
      return db_metadata
  \<close>
\<close>

definition upload_image_and_metadata ::
  "string \<Rightarrow> environment \<Rightarrow> UploadFile \<Rightarrow> string option \<Rightarrow> string option \<Rightarrow> nat
     \<Rightarrow> app_state \<Rightarrow> (exn + ImageMetadata) \<times> app_state" where
  "upload_image_and_metadata upload_dir env upload_file uploader_name location session st =
     (case save_image_file upload_dir (env_uuid4 env) (env_io env) upload_file (files st) of
        (Inl e, fs') \<Rightarrow>
          (Inl (HTTPException 500 (Failed_to_save_image_file e)), st\<lparr>files := fs'\<rparr>)
      | (Inr unique_filename, fs') \<Rightarrow>
          (let metadata_create =
                 \<lparr>mc_uploader_name = uploader_name, mc_location = location\<rparr>
           in case create_image_metadata (db st) (env_now env) unique_filename
                     (uf_filename upload_file) metadata_create of
                (Inl e, db') \<Rightarrow>
                  (Inl (HTTPException 500 (Failed_to_create_image_metadata e)),
                   st\<lparr>files := fs', db := db'\<rparr>)
              | (Inr db_metadata, db') \<Rightarrow>
                  (Inr db_metadata, st\<lparr>files := fs', db := db'\<rparr>)))"

text \<open>
  \<^verbatim>\<open>
  def list_images_metadata(skip=0, limit=100, db=Depends(get_db)):
      images = crud.get_images_metadata(db, skip=skip, limit=limit)
      return images
  \<close>
\<close>

definition list_images_metadata ::
  "int \<Rightarrow> int \<Rightarrow> nat \<Rightarrow> app_state \<Rightarrow> (exn + ImageMetadata list) \<times> app_state" where
  "list_images_metadata skip limit session st =
     (case get_images_metadata (db st) skip limit of
        Inl e \<Rightarrow> (Inl (Uncaught e), st)
      | Inr images \<Rightarrow> (Inr images, st))"

text \<open>
  \<^verbatim>\<open>
  def get_image_metadata_by_id(image_id, db=Depends(get_db)):
      db_image = crud.get_image_metadata(db, image_id=image_id)
      if db_image is None:
          raise HTTPException(status_code=404, detail="Image not found")
      return db_image
  \<close>
\<close>

definition get_image_metadata_by_id ::
  "int \<Rightarrow> nat \<Rightarrow> app_state \<Rightarrow> (exn + ImageMetadata) \<times> app_state" where
  "get_image_metadata_by_id image_id session st =
     (case get_image_metadata (db st) image_id of
        None \<Rightarrow> (Inl (HTTPException 404 Image_not_found), st)
      | Some db_image \<Rightarrow> (Inr db_image, st))"

text \<open>\<^verbatim>\<open>read_root\<close> takes no session and returns the welcome message.\<close>

definition read_root :: "string" where
  "read_root = ''Welcome to RealReview Backend MVP''"

subsection \<open>The routes\<close>

datatype request =
    POST_upload UploadFile "string option" "string option"
  | GET_images int int
  | GET_image int
  | GET_root

datatype body =
    Metadata ImageMetadataDisplay
  | MetadataList "ImageMetadataDisplay list"
  | Message string
  | Detail detail
  | Internal_Server_Error

record response =
  status_code :: nat
  content :: body

text \<open>
  The framework's part: a returned value is serialised through the \<^verbatim>\<open>response_model\<close>
  with status 200, an \<^verbatim>\<open>HTTPException\<close> becomes a response with its status and detail,
  any other exception becomes status 500.
\<close>

definition respond :: "('a \<Rightarrow> body) \<Rightarrow> exn + 'a \<Rightarrow> response" where
  "respond response_model outcome =
     (case outcome of
        Inr v \<Rightarrow> \<lparr>status_code = 200, content = response_model v\<rparr>
      | Inl (HTTPException code d) \<Rightarrow> \<lparr>status_code = code, content = Detail d\<rparr>
      | Inl (Uncaught e) \<Rightarrow> \<lparr>status_code = 500, content = Internal_Server_Error\<rparr>)"

text \<open>
  \<^verbatim>\<open>@app.post("/upload")\<close>, \<^verbatim>\<open>@app.get("/images/")\<close>, \<^verbatim>\<open>@app.get("/images/{image_id}")\<close>
  each with \<^verbatim>\<open>db: Session = Depends(get_db)\<close>, and \<^verbatim>\<open>@app.get("/")\<close>.
\<close>

definition app :: "string \<Rightarrow> environment \<Rightarrow> request \<Rightarrow> app_state \<Rightarrow> response \<times> app_state" where
  "app upload_dir env req st =
     (case req of
        POST_upload upload_file uploader_name location \<Rightarrow>
          (case get_db (upload_image_and_metadata upload_dir env upload_file uploader_name
                          location) st of
             (outcome, st') \<Rightarrow> (respond (\<lambda>r. Metadata (from_attributes r)) outcome, st'))
      | GET_images skip limit \<Rightarrow>
          (case get_db (list_images_metadata skip limit) st of
             (outcome, st') \<Rightarrow>
               (respond (\<lambda>rs. MetadataList (map from_attributes rs)) outcome, st'))
      | GET_image image_id \<Rightarrow>
          (case get_db (get_image_metadata_by_id image_id) st of
             (outcome, st') \<Rightarrow> (respond (\<lambda>r. Metadata (from_attributes r)) outcome, st'))
      | GET_root \<Rightarrow> (\<lparr>status_code = 200, content = Message read_root\<rparr>, st))"

text \<open>A sequence of requests, each with what the environment decides for it.\<close>

fun run :: "string \<Rightarrow> (environment \<times> request) list \<Rightarrow> app_state \<Rightarrow> app_state" where
  "run upload_dir [] st = st"
| "run upload_dir ((env, req) # reqs) st = run upload_dir reqs (snd (app upload_dir env req st))"

definition initial_state :: app_state where
  "initial_state =
     \<lparr>files = Map.empty, db = empty_database, open_sessions = [], next_session = 0\<rparr>"

subsection \<open>Characterisations used in the statements\<close>

text \<open>
  The extension in the words of the specification: the suffix of the name that starts at its
  last dot, and nothing when the name has no dot.
\<close>

definition last_dot_suffix :: "string \<Rightarrow> string" where
  "last_dot_suffix f = (if CHR ''.'' \<in> set f then drop (nat (rfind f CHR ''.'')) f else [])"

text \<open>
  When \<^verbatim>\<open>os.path.splitext\<close> finds an extension: some character of the last path component
  that stands before the last dot of the name is not a dot.
\<close>

definition has_extension :: "string \<Rightarrow> bool" where
  "has_extension p =
     list_ex (\<lambda>j. p ! j \<noteq> CHR ''.'') [nat (rfind p CHR ''/'' + 1)..<nat (rfind p CHR ''.'')]"

subsection \<open>Concrete inputs\<close>

definition example_uuid :: string where
  "example_uuid = ''123e4567-e89b-42d3-a456-426614174000''"

definition other_uuid :: string where
  "other_uuid = ''9b2d7f10-0c4e-4a6b-8f21-5d3e9a7c1b02''"

definition third_uuid :: string where
  "third_uuid = ''0f8fad5b-d9cb-469f-a165-70867728950e''"

definition cat_upload :: UploadFile where
  "cat_upload = \<lparr>uf_filename = ''cat.jpg'', uf_file = [0xFF, 0xD8, 0xFF, 0xE0], uf_pos = 4\<rparr>"

definition archive_upload :: UploadFile where
  "archive_upload = \<lparr>uf_filename = ''archive.tar.gz'', uf_file = [0x1F, 0x8B], uf_pos = 0\<rparr>"

definition readme_upload :: UploadFile where
  "readme_upload = \<lparr>uf_filename = ''README'', uf_file = [0x68, 0x69], uf_pos = 0\<rparr>"

definition kitten_upload :: UploadFile where
  "kitten_upload = \<lparr>uf_filename = ''kitten.jpg'', uf_file = [0x47, 0x49, 0x46], uf_pos = 0\<rparr>"

definition nul_name :: string where
  "nul_name = [CHR ''B'', CHR 0x00, CHR ''o'']"

definition bashrc_upload :: UploadFile where
  "bashrc_upload = \<lparr>uf_filename = ''.bashrc'', uf_file = [0x23], uf_pos = 0\<rparr>"

definition env_a :: environment where
  "env_a = \<lparr>env_uuid4 = example_uuid, env_io = WriteOk, env_now = 1700000000\<rparr>"

definition env_b :: environment where
  "env_b = \<lparr>env_uuid4 = other_uuid, env_io = WriteOk, env_now = 1700000060\<rparr>"

definition env_c :: environment where
  "env_c = \<lparr>env_uuid4 = third_uuid, env_io = WriteOk, env_now = 1700000120\<rparr>"

definition cat_row :: ImageMetadata where
  "cat_row = \<lparr>im_id = 1, im_filename = example_uuid @ ''.jpg'', im_original_filename = ''cat.jpg'',
     im_uploader_name = Some ''Ana'', im_upload_timestamp = 1700000000, im_location = Some ''Lisbon''\<rparr>"

definition archive_row :: ImageMetadata where
  "archive_row = \<lparr>im_id = 2, im_filename = other_uuid @ ''.gz'', im_original_filename = ''archive.tar.gz'',
     im_uploader_name = None, im_upload_timestamp = 1700000060, im_location = None\<rparr>"

definition readme_row :: ImageMetadata where
  "readme_row = \<lparr>im_id = 3, im_filename = third_uuid, im_original_filename = ''README'',
     im_uploader_name = Some ''Bo'', im_upload_timestamp = 1700000120, im_location = None\<rparr>"

definition three_uploads :: "(environment \<times> request) list" where
  "three_uploads =
     [(env_a, POST_upload cat_upload (Some ''Ana'') (Some ''Lisbon'')),
      (env_b, POST_upload archive_upload None None),
      (env_c, POST_upload readme_upload (Some ''Bo'') None)]"

definition after_three_uploads :: app_state where
  "after_three_uploads = run ''./uploads'' three_uploads initial_state"

definition absent_fields :: ImageMetadataCreate where
  "absent_fields = \<lparr>mc_uploader_name = None, mc_location = None\<rparr>"

definition env_d :: environment where
  "env_d = \<lparr>env_uuid4 = ''6f9619ff-8b86-4d01-b42d-00cf4fc964ff'', env_io = WriteOk, env_now = 1700000180\<rparr>"

definition env_disk_full :: environment where
  "env_disk_full = \<lparr>env_uuid4 = other_uuid, env_io = CopyFails 2, env_now = 1700000200\<rparr>"

definition dog_upload :: UploadFile where
  "dog_upload = \<lparr>uf_filename = ''dog.png'', uf_file = [0x89, 0x50, 0x4E, 0x47], uf_pos = 0\<rparr>"

definition dog_row :: ImageMetadata where
  "dog_row = \<lparr>im_id = 4, im_filename = ''6f9619ff-8b86-4d01-b42d-00cf4fc964ff.png'',
     im_original_filename = ''dog.png'', im_uploader_name = None,
     im_upload_timestamp = 1700000180, im_location = None\<rparr>"

section \<open>Properties\<close>

declare splitext_loop.simps [simp del]

subsection \<open>\<^verbatim>\<open>rfind\<close> and \<^verbatim>\<open>splitext\<close>\<close>

lemma rfind_ge: "- 1 \<le> rfind p c"
  by (induction p) (auto simp: Let_def)

lemma rfind_neg_iff: "rfind p c < 0 \<longleftrightarrow> c \<notin> set p"
  by (induction p) (auto simp: Let_def)

lemma rfind_lt: "rfind p c < int (length p)"
  by (induction p) (auto simp: Let_def)

lemma rfind_drop:
  "0 \<le> rfind p c \<Longrightarrow>
     drop (nat (rfind p c)) p = c # drop (Suc (nat (rfind p c))) p \<and>
     c \<notin> set (drop (Suc (nat (rfind p c))) p)"
proof (induction p)
  case Nil
  then show ?case by simp
next
  case (Cons x xs)
  show ?case
  proof (cases "0 \<le> rfind xs c")
    case True
    then have "rfind (x # xs) c = rfind xs c + 1"
      by (simp add: Let_def)
    moreover have "nat (rfind xs c + 1) = Suc (nat (rfind xs c))"
      using True by simp
    ultimately show ?thesis
      using Cons.IH [OF True] by simp
  next
    case False
    then have nin: "c \<notin> set xs"
      using rfind_neg_iff [of xs c] by simp
    with False Cons.prems have "x = c" "rfind (x # xs) c = 0"
      by (auto simp: Let_def split: if_splits)
    then show ?thesis
      using nin by simp
  qed
qed

lemma rfind_bounds_drop: "rfind p c < int k \<Longrightarrow> c \<notin> set (drop k p)"
proof (induction p arbitrary: k)
  case Nil
  then show ?case by simp
next
  case (Cons x xs)
  show ?case
  proof (cases k)
    case 0
    with Cons.prems have "rfind (x # xs) c < 0" by simp
    then show ?thesis using rfind_neg_iff [of "x # xs" c] 0 by simp
  next
    case (Suc j)
    have "rfind xs c < int j"
    proof (cases "0 \<le> rfind xs c")
      case True
      then have "rfind (x # xs) c = rfind xs c + 1" by (simp add: Let_def)
      with Cons.prems Suc show ?thesis by simp
    next
      case False
      then show ?thesis by simp
    qed
    then show ?thesis using Cons.IH [of j] Suc by simp
  qed
qed

lemma splitext_loop_char:
  "splitext_loop p i d =
     (if \<exists>j. i \<le> j \<and> j < d \<and> take 1 (drop j p) \<noteq> ''.'' then (take d p, drop d p) else (p, []))"
proof (induction p i d rule: splitext_loop.induct)
  case (1 p i d)
  show ?case
  proof (cases "i < d")
    case False
    then show ?thesis by (subst splitext_loop.simps) auto
  next
    case True
    show ?thesis
    proof (cases "take 1 (drop i p) \<noteq> ''.''")
      case nondot: True
      then have "\<exists>j. i \<le> j \<and> j < d \<and> take 1 (drop j p) \<noteq> ''.''"
        using True by blast
      then show ?thesis using True nondot by (subst splitext_loop.simps) simp
    next
      case dot: False
      have eq: "(\<exists>j. i \<le> j \<and> j < d \<and> take 1 (drop j p) \<noteq> ''.'') \<longleftrightarrow>
                (\<exists>j. Suc i \<le> j \<and> j < d \<and> take 1 (drop j p) \<noteq> ''.'')"
        using dot by (metis Suc_leI le_neq_implies_less Suc_leD)
      have "splitext_loop p i d = splitext_loop p (Suc i) d"
        using True dot by (subst splitext_loop.simps) simp
      then show ?thesis using 1 [OF True] dot eq by simp
    qed
  qed
qed

lemma take1_drop_nth: "j < length p \<Longrightarrow> take 1 (drop j p) = [p ! j]"
  by (simp add: Cons_nth_drop_Suc [symmetric])

lemma has_extension_iff:
  "has_extension p \<longleftrightarrow>
     (\<exists>j. nat (rfind p CHR ''/'' + 1) \<le> j \<and> j < nat (rfind p CHR ''.'') \<and> p ! j \<noteq> CHR ''.'')"
  by (auto simp: has_extension_def list_ex_iff)

lemma has_extension_dot:
  "has_extension p \<Longrightarrow> 0 \<le> rfind p CHR ''.'' \<and> rfind p CHR ''/'' < rfind p CHR ''.''"
  unfolding has_extension_iff using rfind_ge [of p "CHR ''/''"] by auto

lemma splitext_char:
  "splitext p =
     (if has_extension p
      then (take (nat (rfind p CHR ''.'')) p, drop (nat (rfind p CHR ''.'')) p)
      else (p, []))"
proof -
  let ?s = "rfind p CHR ''/''" and ?d = "rfind p CHR ''.''"
  have dlt: "nat ?d < length p \<or> nat ?d = 0"
    using rfind_lt [of p "CHR ''.''"] by linarith
  have "take 1 (drop j p) \<noteq> ''.'' \<longleftrightarrow> p ! j \<noteq> CHR ''.''" if "j < nat ?d" for j
  proof -
    have "j < length p" using that dlt by linarith
    then show ?thesis by (simp add: take1_drop_nth del: One_nat_def)
  qed
  then have eq:
    "(\<exists>j. nat (?s + 1) \<le> j \<and> j < nat ?d \<and> take 1 (drop j p) \<noteq> ''.'') = has_extension p"
    unfolding has_extension_iff by blast
  show ?thesis
  proof (cases "?d > ?s")
    case True
    then show ?thesis
      unfolding splitext_def Let_def using eq by (simp add: splitext_loop_char)
  next
    case False
    have "\<not> has_extension p"
      using False has_extension_dot [of p] by auto
    then show ?thesis
      unfolding splitext_def Let_def using False by simp
  qed
qed

lemma splitext_append: "fst (splitext p) @ snd (splitext p) = p"
  by (simp add: splitext_char)

lemma has_extension_last_dot_suffix:
  "has_extension p \<Longrightarrow> last_dot_suffix p = drop (nat (rfind p CHR ''.'')) p"
  using has_extension_dot [of p] rfind_neg_iff [of p "CHR ''.''"]
  by (auto simp: last_dot_suffix_def)

lemma splitext_snd: "snd (splitext p) = (if has_extension p then last_dot_suffix p else [])"
  by (simp add: splitext_char has_extension_last_dot_suffix)

lemma splitext_ext_shape:
  assumes "snd (splitext p) \<noteq> []"
  shows "\<exists>rest. snd (splitext p) = CHR ''.'' # rest \<and> CHR ''.'' \<notin> set rest \<and>
           CHR ''/'' \<notin> set rest"
proof -
  let ?k = "nat (rfind p CHR ''.'')"
  have h: "has_extension p"
    using assms by (auto simp: splitext_char split: if_splits)
  then have d0: "0 \<le> rfind p CHR ''.''" and sd: "rfind p CHR ''/'' < rfind p CHR ''.''"
    using has_extension_dot by auto
  have e: "snd (splitext p) = drop ?k p"
    using h by (simp add: splitext_char)
  from rfind_drop [OF d0] have
    1: "drop ?k p = CHR ''.'' # drop (Suc ?k) p" and 2: "CHR ''.'' \<notin> set (drop (Suc ?k) p)"
    by auto
  have "rfind p CHR ''/'' < int ?k"
    using sd d0 by simp
  then have "CHR ''/'' \<notin> set (drop ?k p)"
    by (rule rfind_bounds_drop)
  then have 3: "CHR ''/'' \<notin> set (drop (Suc ?k) p)"
    using 1 by auto
  show ?thesis
    using e 1 2 3 by auto
qed

lemma splitext_no_dot: "CHR ''.'' \<notin> set p \<Longrightarrow> splitext p = (p, [])"
proof -
  assume "CHR ''.'' \<notin> set p"
  then have "rfind p CHR ''.'' < 0"
    using rfind_neg_iff by simp
  then have "\<not> has_extension p"
    using has_extension_dot by fastforce
  then show ?thesis
    by (simp add: splitext_char)
qed

subsection \<open>Identifier strings\<close>

lemma is_uuid4_str_chars:
  assumes "is_uuid4_str s" and "c \<in> set s"
  shows "c = CHR ''-'' \<or> hexdigit c"
proof -
  from assms(2) obtain i where i: "i < length s" "s ! i = c"
    by (auto simp: in_set_conv_nth)
  have len: "length s = 36"
    using assms(1) by (simp add: is_uuid4_str_def)
  have "(i, c) \<in> set (zip [0..<36] s)"
    using i len by (auto simp: set_zip intro!: exI [of _ i])
  moreover have
    "list_all (\<lambda>(i, c). if i \<in> {8, 13, 18, 23} then c = CHR ''-'' else hexdigit c)
       (zip [0..<36] s)"
    using assms(1) by (simp add: is_uuid4_str_def)
  ultimately show ?thesis
    by (auto simp: list_all_iff split: if_splits)
qed

lemma is_uuid4_str_no_dot: "is_uuid4_str s \<Longrightarrow> CHR ''.'' \<notin> set s"
  using is_uuid4_str_chars [of s "CHR ''.''"] by (auto simp: hexdigit_def)

lemma is_uuid4_str_no_sep: "is_uuid4_str s \<Longrightarrow> CHR ''/'' \<notin> set s"
  using is_uuid4_str_chars [of s "CHR ''/''"] by (auto simp: hexdigit_def)

lemma is_uuid4_str_no_nul: "is_uuid4_str s \<Longrightarrow> CHR 0x00 \<notin> set s"
  using is_uuid4_str_chars [of s "CHR 0x00"] by (auto simp: hexdigit_def)

lemma is_uuid4_str_length: "is_uuid4_str s \<Longrightarrow> length s = 36"
  by (simp add: is_uuid4_str_def)

lemma example_uuid_ok: "is_uuid4_str example_uuid"
  unfolding example_uuid_def by code_simp

lemma other_uuid_ok: "is_uuid4_str other_uuid"
  unfolding other_uuid_def by code_simp

lemma third_uuid_ok: "is_uuid4_str third_uuid"
  unfolding third_uuid_def by code_simp

lemma uuids_no_nul:
  "CHR 0x00 \<notin> set example_uuid" "CHR 0x00 \<notin> set other_uuid" "CHR 0x00 \<notin> set third_uuid"
  using example_uuid_ok other_uuid_ok third_uuid_ok by (simp_all add: is_uuid4_str_no_nul)

lemma uuids_differ: "other_uuid \<noteq> example_uuid" "third_uuid \<noteq> example_uuid" "third_uuid \<noteq> other_uuid"
  by (simp_all add: example_uuid_def other_uuid_def third_uuid_def)

lemma splitext_examples:
  "splitext ''cat.jpg'' = (''cat'', ''.jpg'')"
  "splitext ''archive.tar.gz'' = (''archive.tar'', ''.gz'')"
  "splitext ''README'' = (''README'', [])"
  "splitext ''.bashrc'' = (''.bashrc'', [])"
  "splitext ''dog.png'' = (''dog'', ''.png'')"
  "splitext ''kitten.jpg'' = (''kitten'', ''.jpg'')"
  by code_simp+

subsection \<open>Saving the file\<close>

text \<open>
  Claim C1, as stated, at two uploads for which \<^verbatim>\<open>uuid.uuid4()\<close> yields the same
  identifier: \<^verbatim>\<open>cat.jpg\<close> and then \<^verbatim>\<open>kitten.jpg\<close>. Both calls return the same name; the
  function checks nothing before opening the path for writing, and the second call replaces
  the content that the first one stored.
\<close>

theorem save_image_file_same_draw_counterexample:
  "fst (save_image_file ''./uploads'' example_uuid WriteOk cat_upload Map.empty) =
     Inr (example_uuid @ ''.jpg'') \<and>
   fst (save_image_file ''./uploads'' example_uuid WriteOk kitten_upload
          (snd (save_image_file ''./uploads'' example_uuid WriteOk cat_upload Map.empty))) =
     Inr (example_uuid @ ''.jpg'') \<and>
   snd (save_image_file ''./uploads'' example_uuid WriteOk cat_upload Map.empty)
     (''./uploads/'' @ example_uuid @ ''.jpg'') = Some [0xFF, 0xD8, 0xFF, 0xE0] \<and>
   snd (save_image_file ''./uploads'' example_uuid WriteOk kitten_upload
          (snd (save_image_file ''./uploads'' example_uuid WriteOk cat_upload Map.empty)))
     (''./uploads/'' @ example_uuid @ ''.jpg'') = Some [0x47, 0x49, 0x46]"
proof -
  have p: "path_join ''./uploads'' (example_uuid @ ''.jpg'') = ''./uploads/'' @ example_uuid @ ''.jpg''"
    by (simp add: path_join_def example_uuid_def)
  show ?thesis
    by (simp add: save_image_file_def Let_def cat_upload_def kitten_upload_def splitext_examples
        seek_def copyfileobj_def p)
qed

text \<open>
  Claim C1, amended. When the write completes, \<^verbatim>\<open>save_image_file\<close> returns the drawn
  identifier followed by the extension that \<^verbatim>\<open>os.path.splitext\<close> derives from the original
  name (a suffix of that name, empty or starting with its only dot). The file with that name,
  directly under the upload directory, holds the whole upload, wherever the read position
  of the stream was. No call that draws a different identifier returns the same name.
\<close>

theorem save_image_file_unique_name:
  assumes "is_uuid4_str u"
  shows "(let ext = snd (splitext (uf_filename uf)); name = u @ ext in
           save_image_file d u WriteOk uf fs =
             (Inr name, fs(path_join d name \<mapsto> uf_file uf)) \<and>
           (\<exists>root. uf_filename uf = root @ ext) \<and>
           (ext = [] \<or> (\<exists>rest. ext = CHR ''.'' # rest \<and> CHR ''.'' \<notin> set rest)) \<and>
           CHR ''/'' \<notin> set name \<and>
           path_join d name =
             (if d = [] \<or> last d = CHR ''/'' then d @ name else d @ ''/'' @ name) \<and>
           (\<forall>u' d' io' uf' fs'. is_uuid4_str u' \<and> u' \<noteq> u \<longrightarrow>
              fst (save_image_file d' u' io' uf' fs') \<noteq> Inr name))"
proof -
  define ext where "ext = snd (splitext (uf_filename uf))"
  define name where "name = u @ ext"
  have shape:
    "ext = [] \<or> (\<exists>rest. ext = CHR ''.'' # rest \<and> CHR ''.'' \<notin> set rest \<and> CHR ''/'' \<notin> set rest)"
    using splitext_ext_shape [of "uf_filename uf"] by (auto simp: ext_def)
  have 1: "save_image_file d u WriteOk uf fs = (Inr name, fs(path_join d name \<mapsto> uf_file uf))"
    by (simp add: save_image_file_def Let_def ext_def name_def seek_def copyfileobj_def)
  have 2: "\<exists>root. uf_filename uf = root @ ext"
    using splitext_append [of "uf_filename uf"] unfolding ext_def by metis
  have 3: "CHR ''/'' \<notin> set name"
    using shape is_uuid4_str_no_sep [OF assms] by (auto simp: name_def)
  have len: "length u = 36"
    using assms by (rule is_uuid4_str_length)
  have "u \<noteq> []"
    using len by auto
  then have "take 1 name \<noteq> ''/''"
    using is_uuid4_str_no_sep [OF assms] by (cases u) (auto simp: name_def)
  then have 4:
    "path_join d name = (if d = [] \<or> last d = CHR ''/'' then d @ name else d @ ''/'' @ name)"
    by (simp add: path_join_def)
  have 5: "fst (save_image_file d' u' io' uf' fs') \<noteq> Inr name"
    if "is_uuid4_str u'" "u' \<noteq> u" for u' d' io' uf' fs'
  proof
    assume "fst (save_image_file d' u' io' uf' fs') = Inr name"
    then have "u' @ snd (splitext (uf_filename uf')) = u @ ext"
      by (cases io') (auto simp: save_image_file_def Let_def name_def)
    moreover have "length u' = length u"
      using that(1) len by (simp add: is_uuid4_str_length)
    ultimately have "u' = u" by simp
    with that(2) show False by simp
  qed
  show ?thesis
    unfolding Let_def ext_def [symmetric] name_def [symmetric]
    using 1 2 3 4 5 shape by blast
qed

theorem save_image_file_unique_name_witness:
  "is_uuid4_str example_uuid \<and>
   save_image_file ''./uploads'' example_uuid WriteOk cat_upload Map.empty =
     (Inr (example_uuid @ ''.jpg''),
      [''./uploads/'' @ example_uuid @ ''.jpg'' \<mapsto> [0xFF, 0xD8, 0xFF, 0xE0]]) \<and>
   is_uuid4_str other_uuid \<and> other_uuid \<noteq> example_uuid \<and>
   fst (save_image_file ''./uploads'' other_uuid WriteOk cat_upload Map.empty) \<noteq>
     Inr (example_uuid @ ''.jpg'')"
proof -
  have ext: "snd (splitext (uf_filename cat_upload)) = ''.jpg''"
    by (simp add: cat_upload_def splitext_examples)
  note t = save_image_file_unique_name [OF example_uuid_ok, of cat_upload "''./uploads''" Map.empty]
  from t have a:
    "save_image_file ''./uploads'' example_uuid WriteOk cat_upload Map.empty =
       (Inr (example_uuid @ ''.jpg''),
        [path_join ''./uploads'' (example_uuid @ ''.jpg'') \<mapsto> uf_file cat_upload])"
    unfolding Let_def ext by blast
  from t have b:
    "path_join ''./uploads'' (example_uuid @ ''.jpg'') = ''./uploads/'' @ example_uuid @ ''.jpg''"
    unfolding Let_def ext by simp
  from t have c:
    "fst (save_image_file ''./uploads'' other_uuid WriteOk cat_upload Map.empty) \<noteq>
       Inr (example_uuid @ ''.jpg'')"
    unfolding Let_def ext using other_uuid_ok uuids_differ(1) by blast
  show ?thesis
    using a b c example_uuid_ok other_uuid_ok uuids_differ(1) by (simp add: cat_upload_def)
qed

text \<open>
  Claim C10, as stated, at the name \<^verbatim>\<open>.bashrc\<close>: the name has a dot and its last
  dot-suffix is the whole name, yet the derived extension is empty and the stored name is
  the bare identifier.
\<close>

theorem stored_extension_counterexample:
  "last_dot_suffix (uf_filename bashrc_upload) = ''.bashrc'' \<and>
   snd (splitext (uf_filename bashrc_upload)) = [] \<and>
   fst (save_image_file ''./uploads'' example_uuid WriteOk bashrc_upload Map.empty) =
     Inr example_uuid"
proof -
  have "last_dot_suffix ''.bashrc'' = ''.bashrc''"
    by code_simp
  then show ?thesis
    by (simp add: bashrc_upload_def save_image_file_def Let_def splitext_examples)
qed

text \<open>
  Claim C10, amended. The stored name is the identifier followed by the extension of
  \<^verbatim>\<open>os.path.splitext\<close>: the last dot-suffix of the original name, verbatim, when some
  character of the last path component before that dot is not a dot, and nothing otherwise.
  A name without any dot gives the bare identifier, which has no dot.
\<close>

theorem stored_extension:
  assumes "is_uuid4_str u"
  shows "fst (save_image_file d u WriteOk uf fs) =
           Inr (u @ (if has_extension (uf_filename uf) then last_dot_suffix (uf_filename uf)
                     else [])) \<and>
         (CHR ''.'' \<notin> set (uf_filename uf) \<longrightarrow>
            snd (splitext (uf_filename uf)) = [] \<and>
            fst (save_image_file d u WriteOk uf fs) = Inr u \<and> CHR ''.'' \<notin> set u)"
  using assms
  by (simp add: save_image_file_def Let_def splitext_snd [symmetric] splitext_no_dot
      is_uuid4_str_no_dot)

theorem stored_extension_witness:
  "is_uuid4_str example_uuid \<and>
   fst (save_image_file ''./uploads'' example_uuid WriteOk archive_upload Map.empty) =
     Inr (example_uuid @ ''.gz'') \<and>
   CHR ''.'' \<notin> set (uf_filename readme_upload) \<and>
   fst (save_image_file ''./uploads'' example_uuid WriteOk readme_upload Map.empty) =
     Inr example_uuid \<and>
   CHR ''.'' \<notin> set example_uuid"
proof -
  have h: "has_extension ''archive.tar.gz''" "last_dot_suffix ''archive.tar.gz'' = ''.gz''"
    by code_simp+
  have nodot: "CHR ''.'' \<notin> set (uf_filename readme_upload)"
    by (simp add: readme_upload_def)
  have a:
    "fst (save_image_file ''./uploads'' example_uuid WriteOk archive_upload Map.empty) =
       Inr (example_uuid @ ''.gz'')"
    using stored_extension [OF example_uuid_ok, of "''./uploads''" archive_upload Map.empty] h
    by (simp add: archive_upload_def)
  have b:
    "fst (save_image_file ''./uploads'' example_uuid WriteOk readme_upload Map.empty) =
       Inr example_uuid \<and> CHR ''.'' \<notin> set example_uuid"
    using stored_extension [OF example_uuid_ok, of "''./uploads''" readme_upload Map.empty] nodot
    by blast
  show ?thesis
    using a b nodot example_uuid_ok by blast
qed

subsection \<open>The metadata store\<close>

lemma find_distinct_key:
  "distinct (map key xs) \<Longrightarrow> x \<in> set xs \<Longrightarrow> find (\<lambda>y. key y = key x) xs = Some x"
  by (induction xs) (auto simp: image_iff)

lemma get_image_metadata_member:
  "db_wf d \<Longrightarrow> r \<in> set (image_metadata d) \<Longrightarrow> get_image_metadata d (im_id r) = Some r"
  unfolding db_wf_def get_image_metadata_def by (simp add: find_distinct_key)

lemma get_image_metadata_absent:
  "(get_image_metadata d i = None) = (\<forall>r\<in>set (image_metadata d). im_id r \<noteq> i)"
  unfolding get_image_metadata_def by (auto simp: find_None_iff)

lemma db_wf_rows_distinct: "db_wf d \<Longrightarrow> distinct (image_metadata d)"
  unfolding db_wf_def by (simp add: distinct_map)

lemma create_image_metadata_rows:
  "image_metadata (snd (create_image_metadata d now f orig md)) = image_metadata d \<or>
   (\<exists>r. fst (create_image_metadata d now f orig md) = Inr r \<and>
        image_metadata (snd (create_image_metadata d now f orig md)) = image_metadata d @ [r])"
  by (simp add: create_image_metadata_def Let_def)

lemma create_image_metadata_wf:
  assumes "db_wf d"
  shows "db_wf (snd (create_image_metadata d now f orig md))"
proof -
  have ids: "\<forall>r\<in>set (image_metadata d). im_id r \<le> id_seq d"
    using assms by (simp add: db_wf_def list_all_iff)
  show ?thesis
  proof (cases "list_ex has_nul (insert_strings f orig md)")
    case True
    then show ?thesis using assms by (simp add: create_image_metadata_def)
  next
    case nul: False
    show ?thesis
    proof (cases "list_ex (\<lambda>r. im_filename r = f) (image_metadata d)")
      case True
      have "\<forall>r\<in>set (image_metadata d). im_id r \<le> id_seq d + 1"
        using ids by fastforce
      then show ?thesis
        using True nul assms by (simp add: create_image_metadata_def db_wf_def list_all_iff)
    next
      case False
      then have nf: "f \<notin> im_filename ` set (image_metadata d)"
        by (auto simp: list_ex_iff)
      have ni: "id_seq d + 1 \<notin> im_id ` set (image_metadata d)"
        using ids by fastforce
      have "\<forall>r\<in>set (image_metadata d). im_id r \<le> id_seq d + 1"
        using ids by fastforce
      then show ?thesis
        using False nul assms nf ni
        by (simp add: create_image_metadata_def Let_def db_wf_def list_all_iff)
    qed
  qed
qed

lemma create_image_metadata_Inl:
  "fst (create_image_metadata d now f orig md) = Inl e \<Longrightarrow>
     image_metadata (snd (create_image_metadata d now f orig md)) = image_metadata d"
  by (auto simp: create_image_metadata_def Let_def split: if_splits)

lemma create_image_metadata_Inr:
  assumes "create_image_metadata d now f orig md = (Inr r, d')"
  shows "r = \<lparr>im_id = id_seq d + 1, im_filename = f, im_original_filename = orig,
               im_uploader_name = mc_uploader_name md, im_upload_timestamp = now,
               im_location = mc_location md\<rparr> \<and>
         d' = d\<lparr>image_metadata := image_metadata d @ [r], id_seq := id_seq d + 1\<rparr> \<and>
         (\<forall>x\<in>set (image_metadata d). im_filename x \<noteq> f)"
  using assms by (auto simp: create_image_metadata_def Let_def list_ex_iff split: if_splits)

lemma save_image_file_Inr:
  "save_image_file d u io uf fs = (Inr name, fs') \<Longrightarrow>
     io = WriteOk \<and> name = u @ snd (splitext (uf_filename uf)) \<and>
     fs' = fs(path_join d name \<mapsto> uf_file uf)"
  by (cases io) (auto simp: save_image_file_def Let_def seek_def copyfileobj_def)

subsection \<open>Requests and the state\<close>

lemma get_db_eq:
  "get_db endpoint st =
     (let st1 = st\<lparr>open_sessions := next_session st # open_sessions st,
                   next_session := Suc (next_session st)\<rparr>
      in (fst (endpoint (next_session st) st1),
          close (next_session st) (snd (endpoint (next_session st) st1))))"
  by (simp add: get_db_def SessionLocal_def Let_def split: prod.splits)

lemma get_db_fst_snd:
  "fst (get_db ep st) = fst (ep (next_session st) (snd (SessionLocal st)))"
  "db (snd (get_db ep st)) = db (snd (ep (next_session st) (snd (SessionLocal st))))"
  "files (snd (get_db ep st)) = files (snd (ep (next_session st) (snd (SessionLocal st))))"
  by (simp_all add: get_db_def SessionLocal_def close_def split: prod.splits)

lemma SessionLocal_frame [simp]:
  "db (snd (SessionLocal st)) = db st" "files (snd (SessionLocal st)) = files st"
  by (simp_all add: SessionLocal_def)

lemma upload_unfold:
  "upload_image_and_metadata d env uf un loc s st =
     (case save_image_file d (env_uuid4 env) (env_io env) uf (files st) of
        (Inl e, fs') \<Rightarrow> (Inl (HTTPException 500 (Failed_to_save_image_file e)), st\<lparr>files := fs'\<rparr>)
      | (Inr name, fs') \<Rightarrow>
          (case create_image_metadata (db st) (env_now env) name (uf_filename uf)
                  \<lparr>mc_uploader_name = un, mc_location = loc\<rparr> of
             (Inl e, db') \<Rightarrow>
               (Inl (HTTPException 500 (Failed_to_create_image_metadata e)), st\<lparr>files := fs', db := db'\<rparr>)
           | (Inr r, db') \<Rightarrow> (Inr r, st\<lparr>files := fs', db := db'\<rparr>)))"
  by (auto simp: upload_image_and_metadata_def Let_def split: prod.splits sum.splits)

lemma upload_db:
  "db (snd (upload_image_and_metadata d env uf un loc s st)) = db st \<or>
   (\<exists>f. db (snd (upload_image_and_metadata d env uf un loc s st)) =
      snd (create_image_metadata (db st) (env_now env) f (uf_filename uf)
             \<lparr>mc_uploader_name = un, mc_location = loc\<rparr>))"
proof (cases "save_image_file d (env_uuid4 env) (env_io env) uf (files st)")
  case (Pair res fs')
  show ?thesis
  proof (cases res)
    case (Inl e)
    then show ?thesis using Pair by (simp add: upload_image_and_metadata_def)
  next
    case (Inr name)
    let ?c = "create_image_metadata (db st) (env_now env) name (uf_filename uf)
                \<lparr>mc_uploader_name = un, mc_location = loc\<rparr>"
    have "db (snd (upload_image_and_metadata d env uf un loc s st)) = snd ?c"
      using Pair Inr
      by (cases ?c) (auto simp: upload_image_and_metadata_def Let_def split: sum.splits)
    then show ?thesis by blast
  qed
qed

lemma app_POST_upload:
  "app d env (POST_upload uf un loc) st =
     (respond (\<lambda>r. Metadata (from_attributes r))
        (fst (upload_image_and_metadata d env uf un loc (next_session st) (snd (SessionLocal st)))),
      close (next_session st)
        (snd (upload_image_and_metadata d env uf un loc (next_session st) (snd (SessionLocal st)))))"
  by (simp add: app_def get_db_def SessionLocal_def case_prod_beta)

lemma upload_create_fails:
  assumes "save_image_file d (env_uuid4 env) (env_io env) uf (files st) = (Inr name, fs')"
    and "fst (create_image_metadata (db st) (env_now env) name (uf_filename uf)
               \<lparr>mc_uploader_name = un, mc_location = loc\<rparr>) = Inl e"
  shows "fst (app d env (POST_upload uf un loc) st) =
           \<lparr>status_code = 500, content = Detail (Failed_to_create_image_metadata e)\<rparr>"
    and "files (snd (app d env (POST_upload uf un loc) st)) = fs'"
    and "db (snd (app d env (POST_upload uf un loc) st)) =
           snd (create_image_metadata (db st) (env_now env) name (uf_filename uf)
                  \<lparr>mc_uploader_name = un, mc_location = loc\<rparr>)"
proof -
  let ?c = "create_image_metadata (db st) (env_now env) name (uf_filename uf)
              \<lparr>mc_uploader_name = un, mc_location = loc\<rparr>"
  obtain db' where c: "?c = (Inl e, db')"
    using assms(2) by (cases ?c) simp
  have u: "upload_image_and_metadata d env uf un loc (next_session st) (snd (SessionLocal st)) =
          (Inl (HTTPException 500 (Failed_to_create_image_metadata e)),
           snd (SessionLocal st)\<lparr>files := fs', db := db'\<rparr>)"
    using assms(1) c by (simp add: upload_unfold)
  show "fst (app d env (POST_upload uf un loc) st) =
           \<lparr>status_code = 500, content = Detail (Failed_to_create_image_metadata e)\<rparr>"
    and "files (snd (app d env (POST_upload uf un loc) st)) = fs'"
    and "db (snd (app d env (POST_upload uf un loc) st)) = snd ?c"
    by (simp_all add: app_POST_upload u respond_def close_def c)
qed

lemma app_GET_image:
  "fst (app d env (GET_image i) st) =
     (case get_image_metadata (db st) i of
        None \<Rightarrow> \<lparr>status_code = 404, content = Detail Image_not_found\<rparr>
      | Some r \<Rightarrow> \<lparr>status_code = 200, content = Metadata (from_attributes r)\<rparr>)"
  by (simp add: app_def case_prod_beta get_db_fst_snd get_image_metadata_by_id_def respond_def
      split: option.splits)

lemma app_frame:
  "db (snd (app d env (GET_images skip limit) st)) = db st"
  "db (snd (app d env (GET_image i) st)) = db st"
  "db (snd (app d env GET_root st)) = db st"
  "files (snd (app d env (GET_images skip limit) st)) = files st"
  "files (snd (app d env (GET_image i) st)) = files st"
  "files (snd (app d env GET_root st)) = files st"
  by (simp_all add: app_def case_prod_beta get_db_fst_snd list_images_metadata_def
      get_image_metadata_by_id_def split: sum.splits option.splits)

lemma app_db:
  "db (snd (app d env req st)) = db st \<or>
   (\<exists>now f orig md. db (snd (app d env req st)) = snd (create_image_metadata (db st) now f orig md))"
proof (cases req)
  case (POST_upload uf un loc)
  let ?st1 = "st\<lparr>open_sessions := next_session st # open_sessions st,
                   next_session := Suc (next_session st)\<rparr>"
  have "db ?st1 = db st" by simp
  with upload_db [of d env uf un loc "next_session st" ?st1]
  show ?thesis using POST_upload
    by (auto simp: app_def get_db_eq Let_def close_def split: prod.splits)
next
  case (GET_images skip limit)
  then show ?thesis
    by (auto simp: app_def get_db_eq Let_def close_def list_images_metadata_def split: prod.splits sum.splits)
next
  case (GET_image i)
  then show ?thesis
    by (auto simp: app_def get_db_eq Let_def close_def get_image_metadata_by_id_def split: prod.splits option.splits)
next
  case GET_root
  then show ?thesis by (simp add: app_def)
qed

lemma app_wf: "db_wf (db st) \<Longrightarrow> db_wf (db (snd (app d env req st)))"
  using app_db [of d env req st] create_image_metadata_wf by auto

lemma app_rows:
  "image_metadata (db (snd (app d env req st))) = image_metadata (db st) \<or>
   (\<exists>r. image_metadata (db (snd (app d env req st))) = image_metadata (db st) @ [r])"
  using app_db [of d env req st] create_image_metadata_rows by metis

lemma run_wf: "db_wf (db st) \<Longrightarrow> db_wf (db (run d reqs st))"
  by (induction d reqs st rule: run.induct) (auto simp: app_wf)

lemma run_rows: "prefix (image_metadata (db st)) (image_metadata (db (run d reqs st)))"
proof (induction d reqs st rule: run.induct)
  case (1 d st)
  then show ?case by simp
next
  case (2 d env req reqs st)
  have "prefix (image_metadata (db st)) (image_metadata (db (snd (app d env req st))))"
    using app_rows [of d env req st] by (auto simp: prefix_def)
  with 2 show ?case by (auto intro: prefix_order.trans)
qed

lemma prefix_member: "prefix xs ys \<Longrightarrow> x \<in> set xs \<Longrightarrow> x \<in> set ys"
  by (auto simp: prefix_def)

lemma run_keeps_record:
  assumes "db_wf (db st)" and "r \<in> set (image_metadata (db st))"
  shows "get_image_metadata (db (run d reqs st)) (im_id r) = Some r"
proof -
  have "r \<in> set (image_metadata (db (run d reqs st)))"
    using run_rows [of st d reqs] assms(2) by (rule prefix_member)
  moreover have "db_wf (db (run d reqs st))"
    using assms(1) by (rule run_wf)
  ultimately show ?thesis by (simp add: get_image_metadata_member)
qed

lemma initial_state_wf: "db_wf (db initial_state)"
  by (simp add: initial_state_def empty_database_def db_wf_def)

lemma upload_sessions:
  "open_sessions (snd (upload_image_and_metadata d env uf un loc s st)) = open_sessions st"
  "next_session (snd (upload_image_and_metadata d env uf un loc s st)) = next_session st"
  by (simp_all add: upload_unfold split: prod.splits sum.splits)

lemma list_sessions:
  "open_sessions (snd (list_images_metadata skip limit s st)) = open_sessions st"
  "next_session (snd (list_images_metadata skip limit s st)) = next_session st"
  by (simp_all add: list_images_metadata_def split: sum.splits)

lemma get_by_id_sessions:
  "open_sessions (snd (get_image_metadata_by_id i s st)) = open_sessions st"
  "next_session (snd (get_image_metadata_by_id i s st)) = next_session st"
  by (simp_all add: get_image_metadata_by_id_def split: option.splits)

lemma get_db_sessions:
  assumes "\<And>s st'. open_sessions (snd (endpoint s st')) = open_sessions st'"
    and "\<And>s st'. next_session (snd (endpoint s st')) = next_session st'"
  shows "open_sessions (snd (get_db endpoint st)) = removeAll (next_session st) (open_sessions st)"
    and "next_session (snd (get_db endpoint st)) = Suc (next_session st)"
  using assms by (simp_all add: get_db_def SessionLocal_def close_def case_prod_beta)

lemma app_sessions:
  "open_sessions (snd (app d env req st)) =
     (case req of GET_root \<Rightarrow> open_sessions st
      | _ \<Rightarrow> removeAll (next_session st) (open_sessions st))"
  "next_session (snd (app d env req st)) =
     (case req of GET_root \<Rightarrow> next_session st | _ \<Rightarrow> Suc (next_session st))"
  by (cases req;
      simp add: app_def case_prod_beta get_db_sessions upload_sessions list_sessions
        get_by_id_sessions)+

subsection \<open>The concrete states\<close>

lemma three_db:
  "db after_three_uploads = \<lparr>image_metadata = [cat_row, archive_row, readme_row], id_seq = 3\<rparr>"
  unfolding after_three_uploads_def three_uploads_def
  apply (simp add: app_def get_db_eq Let_def close_def upload_image_and_metadata_def
      save_image_file_def env_a_def env_b_def env_c_def cat_upload_def archive_upload_def
      readme_upload_def splitext_examples initial_state_def create_image_metadata_def
      has_nul_def insert_strings_def uuids_no_nul empty_database_def
      cat_row_def archive_row_def readme_row_def)
  apply (simp add: example_uuid_def other_uuid_def third_uuid_def)
  done

lemma three_rows: "image_metadata (db after_three_uploads) = [cat_row, archive_row, readme_row]"
  by (simp add: three_db)

lemma after_three_wf: "db_wf (db after_three_uploads)"
  unfolding after_three_uploads_def by (rule run_wf) (rule initial_state_wf)

lemma dog_create:
  "create_image_metadata (db after_three_uploads) 1700000180
      ''6f9619ff-8b86-4d01-b42d-00cf4fc964ff.png'' ''dog.png'' absent_fields =
     (Inr dog_row,
      \<lparr>image_metadata = [cat_row, archive_row, readme_row, dog_row], id_seq = 4\<rparr>)"
  by (simp add: three_db create_image_metadata_def has_nul_def insert_strings_def Let_def
      dog_row_def absent_fields_def
      cat_row_def archive_row_def readme_row_def example_uuid_def other_uuid_def third_uuid_def)

lemma two_pages:
  "0 \<le> N \<Longrightarrow> take (nat N) rows @ take (nat N) (drop (nat N) rows) = take (nat (2 * N)) rows"
proof -
  assume "0 \<le> N"
  then have "nat (2 * N) = nat N + nat N" by simp
  then show ?thesis by (simp add: take_add)
qed

lemma set_take_eq_iff:
  assumes "distinct xs"
  shows "set (take k xs) = set xs \<longleftrightarrow> length xs \<le> k"
proof
  assume eq: "set (take k xs) = set xs"
  show "length xs \<le> k"
  proof (rule ccontr)
    assume "\<not> length xs \<le> k"
    then have k: "k < length xs" by simp
    then have "xs ! k \<in> set xs" by simp
    with eq have "xs ! k \<in> set (take k xs)" by simp
    then obtain i where "i < k" "xs ! i = xs ! k"
      using k by (auto simp: in_set_conv_nth)
    with assms k show False by (auto simp: distinct_conv_nth)
  qed
next
  assume "length xs \<le> k"
  then show "set (take k xs) = set xs" by simp
qed

subsection \<open>Pagination\<close>

text \<open>
  Claim C2, as stated, after three uploads with \<open>N = 1\<close>: the two pages hold the first
  two records and the third stored record is in neither.
\<close>

theorem pagination_partition_counterexample:
  "get_images_metadata (db after_three_uploads) 0 1 = Inr [cat_row] \<and>
   get_images_metadata (db after_three_uploads) 1 1 = Inr [archive_row] \<and>
   readme_row \<in> set (image_metadata (db after_three_uploads)) \<and>
   readme_row \<notin> set ([cat_row] @ [archive_row])"
  by (simp add: get_images_metadata_def three_rows)
     (simp add: cat_row_def archive_row_def readme_row_def)

text \<open>
  Claim C2, amended. For \<open>1 \<le> N < 2^63\<close> the two calls \<^verbatim>\<open>list(skip=0, limit=N)\<close> and
  \<^verbatim>\<open>list(skip=N, limit=N)\<close> return, without overlap, the first \<open>2N\<close> stored records in
  store order; together they hold every stored record exactly when at most \<open>2N\<close> records
  are stored. For \<open>N \<ge> 2^63\<close> both calls raise the database's \<^verbatim>\<open>DataError\<close>.
\<close>

theorem pagination_two_pages:
  assumes "db_wf d" and "1 \<le> N"
  shows "(N < 2 ^ 63 \<longrightarrow>
           (\<exists>page1 page2.
              get_images_metadata d 0 N = Inr page1 \<and>
              get_images_metadata d N N = Inr page2 \<and>
              page1 @ page2 = take (nat (2 * N)) (image_metadata d) \<and>
              distinct (page1 @ page2) \<and>
              (set (page1 @ page2) = set (image_metadata d) \<longleftrightarrow>
                 int (length (image_metadata d)) \<le> 2 * N))) \<and>
         (2 ^ 63 \<le> N \<longrightarrow>
            get_images_metadata d 0 N = Inl DataError \<and>
            get_images_metadata d N N = Inl DataError)"
proof -
  let ?rows = "image_metadata d"
  let ?p1 = "take (nat N) ?rows" and ?p2 = "take (nat N) (drop (nat N) ?rows)"
  have N0: "0 \<le> N" using assms(2) by simp
  have 1: "get_images_metadata d 0 N = Inr ?p1" "get_images_metadata d N N = Inr ?p2"
    if "N < 2 ^ 63"
    using N0 that by (simp_all add: get_images_metadata_def)
  have 2: "?p1 @ ?p2 = take (nat (2 * N)) ?rows" using N0 by (rule two_pages)
  have dist: "distinct ?rows" using assms(1) by (rule db_wf_rows_distinct)
  then have 3: "distinct (?p1 @ ?p2)" unfolding 2 by simp
  have "set (?p1 @ ?p2) = set ?rows \<longleftrightarrow> length ?rows \<le> nat (2 * N)"
    unfolding 2 using dist by (rule set_take_eq_iff)
  also have "\<dots> \<longleftrightarrow> int (length ?rows) \<le> 2 * N" using N0 by linarith
  finally have 4: "set (?p1 @ ?p2) = set ?rows \<longleftrightarrow> int (length ?rows) \<le> 2 * N" .
  have 5: "get_images_metadata d 0 N = Inl DataError \<and> get_images_metadata d N N = Inl DataError"
    if "2 ^ 63 \<le> N"
    using that by (simp add: get_images_metadata_def)
  show ?thesis using 1 2 3 4 5 by blast
qed

theorem pagination_two_pages_witness:
  "db_wf (db after_three_uploads) \<and> (1::int) \<le> 2 \<and> (2::int) < 2 ^ 63 \<and>
   get_images_metadata (db after_three_uploads) 0 2 = Inr [cat_row, archive_row] \<and>
   get_images_metadata (db after_three_uploads) 2 2 = Inr [readme_row] \<and>
   set ([cat_row, archive_row] @ [readme_row]) = set (image_metadata (db after_three_uploads)) \<and>
   (1::int) \<le> 2 ^ 63 \<and>
   get_images_metadata (db after_three_uploads) 0 (2 ^ 63) = Inl DataError \<and>
   get_images_metadata (db after_three_uploads) (2 ^ 63) (2 ^ 63) = Inl DataError"
proof -
  have p: "get_images_metadata (db after_three_uploads) 0 2 = Inr [cat_row, archive_row]"
    "get_images_metadata (db after_three_uploads) 2 2 = Inr [readme_row]"
    by (simp_all add: get_images_metadata_def three_rows)
  from pagination_two_pages [OF after_three_wf, of 2] p
  have a: "set ([cat_row, archive_row] @ [readme_row]) =
           set (image_metadata (db after_three_uploads))"
    by (simp add: three_rows)
  from pagination_two_pages [OF after_three_wf, of "2 ^ 63"]
  have b: "get_images_metadata (db after_three_uploads) 0 (2 ^ 63) = Inl DataError \<and>
           get_images_metadata (db after_three_uploads) (2 ^ 63) (2 ^ 63) = Inl DataError"
    by simp
  show ?thesis
    using p a b after_three_wf by simp
qed

subsection \<open>Lookup by id\<close>

text \<open>
  Claim C3. \<^verbatim>\<open>GET /images/{id}\<close> with an id that no stored record has raises
  \<^verbatim>\<open>HTTPException(404)\<close> and the response has status 404; with the id of a stored record
  it returns that record with status 200.
\<close>

theorem get_image_metadata_by_id_found_or_404:
  "((\<forall>r\<in>set (image_metadata (db st)). im_id r \<noteq> image_id) \<longrightarrow>
      fst (get_image_metadata_by_id image_id session st) = Inl (HTTPException 404 Image_not_found) \<and>
      fst (app d env (GET_image image_id) st) =
        \<lparr>status_code = 404, content = Detail Image_not_found\<rparr>) \<and>
   (db_wf (db st) \<longrightarrow>
      (\<forall>r\<in>set (image_metadata (db st)). im_id r = image_id \<longrightarrow>
         fst (get_image_metadata_by_id image_id session st) = Inr r \<and>
         fst (app d env (GET_image image_id) st) =
           \<lparr>status_code = 200, content = Metadata (from_attributes r)\<rparr>))"
proof -
  have a: "get_image_metadata (db st) image_id = None"
    if "\<forall>r\<in>set (image_metadata (db st)). im_id r \<noteq> image_id"
    using that by (simp add: get_image_metadata_absent)
  have b: "get_image_metadata (db st) image_id = Some r"
    if "db_wf (db st)" "r \<in> set (image_metadata (db st))" "im_id r = image_id" for r
    using get_image_metadata_member [OF that(1,2)] that(3) by simp
  show ?thesis
    using a b by (auto simp: app_GET_image get_image_metadata_by_id_def)
qed

theorem get_image_metadata_by_id_found_or_404_witness:
  "7 \<notin> im_id ` set (image_metadata (db after_three_uploads)) \<and>
   fst (app ''./uploads'' env_a (GET_image 7) after_three_uploads) =
     \<lparr>status_code = 404, content = Detail Image_not_found\<rparr> \<and>
   db_wf (db after_three_uploads) \<and>
   archive_row \<in> set (image_metadata (db after_three_uploads)) \<and> im_id archive_row = 2 \<and>
   fst (app ''./uploads'' env_a (GET_image 2) after_three_uploads) =
     \<lparr>status_code = 200, content = Metadata (from_attributes archive_row)\<rparr>"
proof -
  have n: "\<forall>r\<in>set (image_metadata (db after_three_uploads)). im_id r \<noteq> 7"
    by (simp add: three_rows cat_row_def archive_row_def readme_row_def)
  have m: "archive_row \<in> set (image_metadata (db after_three_uploads))" "im_id archive_row = 2"
    by (simp_all add: three_rows archive_row_def)
  have n': "7 \<notin> im_id ` set (image_metadata (db after_three_uploads))"
    using n by auto
  have a: "fst (app ''./uploads'' env_a (GET_image 7) after_three_uploads) =
     \<lparr>status_code = 404, content = Detail Image_not_found\<rparr>"
    using get_image_metadata_by_id_found_or_404 [of after_three_uploads 7 0 "''./uploads''" env_a] n
    by blast
  have b: "fst (app ''./uploads'' env_a (GET_image 2) after_three_uploads) =
     \<lparr>status_code = 200, content = Metadata (from_attributes archive_row)\<rparr>"
    using get_image_metadata_by_id_found_or_404 [of after_three_uploads 2 0 "''./uploads''" env_a]
      m after_three_wf
    by blast
  show ?thesis
    using n' a b m after_three_wf by blast
qed

text \<open>
  Claim C4. The record that \<^verbatim>\<open>create_image_metadata\<close> returns is what
  \<^verbatim>\<open>get_image_metadata\<close> returns for its id, at once and after any further requests; its
  optional fields are the submitted ones, \<^verbatim>\<open>None\<close> where nothing was submitted, in the row
  and in the response shape.
\<close>

theorem get_returns_created_record:
  assumes "db_wf (db st)"
    and "create_image_metadata (db st) now filename original_filename metadata = (Inr r, db')"
  shows "get_image_metadata db' (im_id r) = Some r \<and>
         im_uploader_name r = mc_uploader_name metadata \<and>
         im_location r = mc_location metadata \<and>
         d_uploader_name (from_attributes r) = mc_uploader_name metadata \<and>
         d_location (from_attributes r) = mc_location metadata \<and>
         (\<forall>reqs. get_image_metadata (db (run d reqs (st\<lparr>db := db'\<rparr>))) (im_id r) = Some r) \<and>
         (\<forall>reqs env. fst (app d env (GET_image (im_id r)) (run d reqs (st\<lparr>db := db'\<rparr>))) =
            \<lparr>status_code = 200, content = Metadata (from_attributes r)\<rparr>)"
proof -
  have wf': "db_wf db'"
    using create_image_metadata_wf [OF assms(1), of now filename original_filename metadata] assms(2)
    by simp
  have mem: "r \<in> set (image_metadata db')"
    using create_image_metadata_Inr [OF assms(2)] by simp
  have fields: "im_uploader_name r = mc_uploader_name metadata" "im_location r = mc_location metadata"
    using create_image_metadata_Inr [OF assms(2)] by simp_all
  have keep: "get_image_metadata (db (run d reqs (st\<lparr>db := db'\<rparr>))) (im_id r) = Some r" for reqs
    using run_keeps_record [of "st\<lparr>db := db'\<rparr>" r d reqs] wf' mem by simp
  have now: "get_image_metadata db' (im_id r) = Some r"
    using wf' mem by (rule get_image_metadata_member)
  show ?thesis
    using now fields keep by (simp add: app_GET_image from_attributes_def)
qed

theorem get_returns_created_record_witness:
  "db_wf (db after_three_uploads) \<and>
   create_image_metadata (db after_three_uploads) 1700000180
      ''6f9619ff-8b86-4d01-b42d-00cf4fc964ff.png'' ''dog.png'' absent_fields =
     (Inr dog_row,
      \<lparr>image_metadata = [cat_row, archive_row, readme_row, dog_row], id_seq = 4\<rparr>) \<and>
   get_image_metadata
     \<lparr>image_metadata = [cat_row, archive_row, readme_row, dog_row], id_seq = 4\<rparr> 4 = Some dog_row \<and>
   d_uploader_name (from_attributes dog_row) = None \<and>
   d_location (from_attributes dog_row) = None"
proof -
  have i: "im_id dog_row = 4" "mc_uploader_name absent_fields = None" "mc_location absent_fields = None"
    by (simp_all add: dog_row_def absent_fields_def)
  show ?thesis
    using get_returns_created_record [OF after_three_wf dog_create] after_three_wf dog_create i by simp
qed

subsection \<open>Creating records and uploading\<close>




text \<open>
  Claim C5. When the file save succeeds and the insert raises, for whatever reason, the
  upload responds with status 500, the files are exactly those that the save left, the saved
  file among them with the whole upload as content, and the stored rows are as they were.
\<close>

theorem upload_insert_failure_orphans_file:
  assumes "save_image_file d (env_uuid4 env) (env_io env) upload_file (files st) = (Inr name, fs')"
    and "fst (create_image_metadata (db st) (env_now env) name (uf_filename upload_file)
               \<lparr>mc_uploader_name = uploader_name, mc_location = location\<rparr>) = Inl e"
  shows "fst (app d env (POST_upload upload_file uploader_name location) st) =
           \<lparr>status_code = 500, content = Detail (Failed_to_create_image_metadata e)\<rparr> \<and>
         files (snd (app d env (POST_upload upload_file uploader_name location) st)) = fs' \<and>
         fs' (path_join d name) = Some (uf_file upload_file) \<and>
         image_metadata (db (snd (app d env (POST_upload upload_file uploader_name location) st))) =
           image_metadata (db st)"
proof -
  have f: "fs' (path_join d name) = Some (uf_file upload_file)"
    using save_image_file_Inr [OF assms(1)] by simp
  have r: "image_metadata (db (snd (app d env (POST_upload upload_file uploader_name location) st)))
             = image_metadata (db st)"
    using upload_create_fails(3) [OF assms] create_image_metadata_Inl [OF assms(2)] by simp
  show ?thesis
    using f r upload_create_fails(1,2) [OF assms] by simp
qed

theorem upload_insert_failure_orphans_file_witness:
  "save_image_file ''./uploads'' (env_uuid4 env_d) (env_io env_d) dog_upload
       (files after_three_uploads) =
     (Inr ''6f9619ff-8b86-4d01-b42d-00cf4fc964ff.png'',
      (files after_three_uploads)
        (path_join ''./uploads'' ''6f9619ff-8b86-4d01-b42d-00cf4fc964ff.png'' \<mapsto>
           uf_file dog_upload)) \<and>
   fst (create_image_metadata (db after_three_uploads) (env_now env_d)
          ''6f9619ff-8b86-4d01-b42d-00cf4fc964ff.png'' (uf_filename dog_upload)
          \<lparr>mc_uploader_name = Some nul_name, mc_location = None\<rparr>) = Inl ValueError \<and>
   fst (app ''./uploads'' env_d (POST_upload dog_upload (Some nul_name) None)
          after_three_uploads) =
     \<lparr>status_code = 500, content = Detail (Failed_to_create_image_metadata ValueError)\<rparr> \<and>
   files (snd (app ''./uploads'' env_d (POST_upload dog_upload (Some nul_name) None)
                 after_three_uploads))
     (path_join ''./uploads'' ''6f9619ff-8b86-4d01-b42d-00cf4fc964ff.png'') =
     Some [0x89, 0x50, 0x4E, 0x47] \<and>
   image_metadata (db (snd (app ''./uploads'' env_d (POST_upload dog_upload (Some nul_name) None)
                              after_three_uploads))) = [cat_row, archive_row, readme_row] \<and>
   ''6f9619ff-8b86-4d01-b42d-00cf4fc964ff.png'' \<notin>
     im_filename ` set [cat_row, archive_row, readme_row]"
proof -
  have s: "save_image_file ''./uploads'' (env_uuid4 env_d) (env_io env_d) dog_upload
       (files after_three_uploads) =
     (Inr ''6f9619ff-8b86-4d01-b42d-00cf4fc964ff.png'',
      (files after_three_uploads)
        (path_join ''./uploads'' ''6f9619ff-8b86-4d01-b42d-00cf4fc964ff.png'' \<mapsto>
           uf_file dog_upload))"
    by (simp add: save_image_file_def Let_def env_d_def dog_upload_def splitext_examples
        seek_def copyfileobj_def)
  have c: "fst (create_image_metadata (db after_three_uploads) (env_now env_d)
          ''6f9619ff-8b86-4d01-b42d-00cf4fc964ff.png'' (uf_filename dog_upload)
          \<lparr>mc_uploader_name = Some nul_name, mc_location = None\<rparr>) = Inl ValueError"
    by (simp add: create_image_metadata_def insert_strings_def has_nul_def nul_name_def)
  have o: "''6f9619ff-8b86-4d01-b42d-00cf4fc964ff.png'' \<notin>
     im_filename ` set [cat_row, archive_row, readme_row]"
    by (simp add: cat_row_def archive_row_def readme_row_def
        example_uuid_def other_uuid_def third_uuid_def)
  show ?thesis
    using upload_insert_failure_orphans_file [OF s c] s c o
    by (simp add: three_db dog_upload_def)
qed



subsection \<open>Immutability and sessions\<close>

text \<open>
  Claim C8. A request leaves the stored rows as they are or appends one row; the three
  read routes leave the database unchanged; over any sequence of requests the rows of the
  start are a prefix of the rows of the end, each at its position and with all its fields.
\<close>

theorem records_immutable:
  "(image_metadata (db (snd (app d env req st))) = image_metadata (db st) \<or>
    (\<exists>r. image_metadata (db (snd (app d env req st))) = image_metadata (db st) @ [r])) \<and>
   db (snd (app d env (GET_images skip limit) st)) = db st \<and>
   db (snd (app d env (GET_image image_id) st)) = db st \<and>
   db (snd (app d env GET_root st)) = db st \<and>
   prefix (image_metadata (db st)) (image_metadata (db (run d reqs st))) \<and>
   (\<forall>i<length (image_metadata (db st)).
      image_metadata (db (run d reqs st)) ! i = image_metadata (db st) ! i)"
proof -
  have p: "prefix (image_metadata (db st)) (image_metadata (db (run d reqs st)))"
    by (rule run_rows)
  then have "\<forall>i<length (image_metadata (db st)).
      image_metadata (db (run d reqs st)) ! i = image_metadata (db st) ! i"
    by (auto simp: prefix_def nth_append)
  with p show ?thesis
    using app_rows [of d env req st] by (simp add: app_frame)
qed

theorem records_immutable_witness:
  "image_metadata (db (snd (app ''./uploads'' env_d (POST_upload dog_upload None None)
                              after_three_uploads))) =
     image_metadata (db after_three_uploads) @ [dog_row] \<and>
   db (snd (app ''./uploads'' env_a (GET_images 0 100) after_three_uploads)) =
     db after_three_uploads \<and>
   db (snd (app ''./uploads'' env_a (GET_image 2) after_three_uploads)) = db after_three_uploads \<and>
   prefix [cat_row, archive_row, readme_row]
     (image_metadata (db (run ''./uploads''
        [(env_d, POST_upload dog_upload None None), (env_a, GET_image 1)] after_three_uploads)))"
proof -
  note t = records_immutable [of "''./uploads''" env_d "POST_upload dog_upload None None" after_three_uploads
      0 100 2 "[(env_d, POST_upload dog_upload None None), (env_a, GET_image 1)]"]
  have u: "image_metadata (db (snd (app ''./uploads'' env_d (POST_upload dog_upload None None)
                              after_three_uploads))) =
     image_metadata (db after_three_uploads) @ [dog_row]"
    by (simp add: app_POST_upload upload_unfold save_image_file_def Let_def env_d_def
        dog_upload_def splitext_examples create_image_metadata_def insert_strings_def
        has_nul_def three_db dog_row_def
        cat_row_def archive_row_def readme_row_def example_uuid_def other_uuid_def third_uuid_def
        close_def)
  show ?thesis
    using t u records_immutable [of "''./uploads''" env_a "GET_root" after_three_uploads 0 100 2 "[]"]
    by (simp add: three_db)
qed

text \<open>
  Claim C9. The session that a request acquires is not open once the request has
  completed, whatever the response; when every open session was handed out by
  \<^verbatim>\<open>SessionLocal\<close>, the open sessions after the request are those before it.
\<close>

theorem session_released:
  "(req \<noteq> GET_root \<longrightarrow>
      fst (SessionLocal st) \<notin> set (open_sessions (snd (app d env req st)))) \<and>
   (sessions_wf st \<longrightarrow>
      fst (SessionLocal st) \<notin> set (open_sessions (snd (app d env req st))) \<and>
      open_sessions (snd (app d env req st)) = open_sessions st \<and>
      sessions_wf (snd (app d env req st)))"
proof -
  have s: "fst (SessionLocal st) = next_session st"
    by (simp add: SessionLocal_def)
  have a: "next_session st \<notin> set (open_sessions (snd (app d env req st)))" if "req \<noteq> GET_root"
    using that by (cases req) (simp_all add: app_sessions)
  have b: "next_session st \<notin> set (open_sessions st)" if "sessions_wf st"
    using that by (auto simp: sessions_wf_def list_all_iff)
  have c: "open_sessions (snd (app d env req st)) = open_sessions st" if "sessions_wf st"
    using b [OF that] by (cases req) (simp_all add: app_sessions)
  have d: "sessions_wf (snd (app d env req st))" if "sessions_wf st"
    using that c [OF that]
    by (cases req) (auto simp: sessions_wf_def list_all_iff app_sessions(2))
  show ?thesis
    using a b c d s by auto
qed

theorem session_released_witness:
  "sessions_wf initial_state \<and>
   fst (app ''./uploads'' env_disk_full (POST_upload dog_upload None None) initial_state) =
     \<lparr>status_code = 500, content = Detail (Failed_to_save_image_file OSError)\<rparr> \<and>
   open_sessions (snd (app ''./uploads'' env_disk_full (POST_upload dog_upload None None) initial_state)) = [] \<and>
   status_code (fst (app ''./uploads'' env_a (POST_upload cat_upload None None) initial_state)) = 200 \<and>
   open_sessions (snd (app ''./uploads'' env_a (POST_upload cat_upload None None) initial_state)) = []"
proof -
  have wf: "sessions_wf initial_state"
    by (simp add: sessions_wf_def initial_state_def)
  have e: "open_sessions initial_state = []"
    by (simp add: initial_state_def)
  have f: "fst (app ''./uploads'' env_disk_full (POST_upload dog_upload None None) initial_state) =
     \<lparr>status_code = 500, content = Detail (Failed_to_save_image_file OSError)\<rparr>"
    by (simp add: app_POST_upload upload_unfold save_image_file_def Let_def env_disk_full_def respond_def)
  have g: "status_code (fst (app ''./uploads'' env_a (POST_upload cat_upload None None) initial_state)) = 200"
    by (simp add: app_POST_upload upload_unfold save_image_file_def Let_def env_a_def respond_def
        create_image_metadata_def insert_strings_def has_nul_def uuids_no_nul cat_upload_def
        splitext_examples initial_state_def empty_database_def)
  show ?thesis
    using session_released [of "POST_upload dog_upload None None" initial_state "''./uploads''" env_disk_full]
      session_released [of "POST_upload cat_upload None None" initial_state "''./uploads''" env_a]
      wf e f g by simp
qed

end
